theory Spec2Isabelle
  imports Main "HOL-Library.Word" "HOL-Library.AList"
begin

section \<open>Foundation values and the Objective-C runtime\<close>

text \<open>
  The objects that cross the bridge are the Foundation objects a JSON payload decodes
  to. A JSON boolean arrives as an \<open>NSNumber\<close>; numbers are carried by the integer
  their \<open>integerValue\<close> yields (floating-point payloads are outside this development).
  A value of type \<open>id\<close> is an \<open>obj option\<close>, with \<open>None\<close> for \<open>nil\<close>.
\<close>

datatype obj =
    NSNull
  | NSNumber int
  | NSString string
  | NSArray "obj list"
  | NSDictionary "(string \<times> obj) list"

type_synonym objc_id = "obj option"

text \<open>\<open>NSInteger\<close> and \<open>NSUInteger\<close> on LP64.\<close>

type_synonym NSInteger = "64 word"

text \<open>The enum \<open>RCTBridgeFields\<close> (an \<open>NSUInteger\<close> enum counting up from 0).\<close>

definition RCTBridgeFieldRequestModuleIDs :: nat where
  "RCTBridgeFieldRequestModuleIDs = 0"

definition RCTBridgeFieldMethodIDs :: nat where
  "RCTBridgeFieldMethodIDs = 1"

definition RCTBridgeFieldParamss :: nat where
  "RCTBridgeFieldParamss = 2"

definition RCTBridgeFieldResponseCBIDs :: nat where
  "RCTBridgeFieldResponseCBIDs = 3"

definition RCTBridgeFieldResponseReturnValues :: nat where
  "RCTBridgeFieldResponseReturnValues = 4"

definition RCTBridgeFieldFlushDateMillis :: nat where
  "RCTBridgeFieldFlushDateMillis = 5"

text \<open>The private container class \<open>RCTModuleMethod\<close>.\<close>

record RCTModuleMethod =
  selector :: string
  JSMethodName :: string
  arity :: nat
  blockArgumentIndexes :: "nat set"

text \<open>
  What the bridge reads of a class through the Objective-C runtime: its name, whether it
  has a superclass, whether it conforms to \<open>RCTBridgeModule\<close>, the result of
  \<open>+moduleName\<close>, \<open>+constantsToExport\<close> and \<open>+JSMethods\<close> where the class
  overrides them, and which optional instance methods it responds to.
\<close>

record objc_class =
  className :: string
  hasSuperclass :: bool
  conformsToRCTBridgeModule :: bool
  moduleName :: "string option"
  constantsToExport :: "obj option"
  JSMethods :: "string list option"
  respondsToInvalidate :: bool
  respondsToBatchDidComplete :: bool

text \<open>
  A remote callback: the block returned by \<open>createResponseSenderBlock:\<close> captures
  the callback id (and the bridge, which is the state passed at invocation).
\<close>

datatype RCTResponseSenderBlock = ResponseSenderBlock NSInteger

text \<open>
  An argument as set on the \<open>NSInvocation\<close>: \<open>nil\<close>, a block, a selector, a C string,
  a primitive of the given type encoding read off the object, or the object itself.
\<close>

datatype arg =
    ANil
  | ABlock RCTResponseSenderBlock
  | ASelector string
  | ACString string
  | APrimitive char obj
  | AObject obj

text \<open>Messages sent to capability-module instances.\<close>

datatype native_call =
    Invoke string string "arg list"
  | BatchDidComplete string
  | Invalidate string

text \<open>
  Facts the source obtains from the platform and that are inputs here: the class list
  (\<open>objc_copyClassList\<close>), the dictionary returned by \<open>RCTExportedMethodsByModule()\<close>
  in its enumeration order, \<open>-[NSString integerValue]\<close>, the first character of the
  type encoding of argument \<open>idx + 2\<close> of a module's method, whether an invocation
  raises, and after how many nanoseconds the executor calls back to acknowledge the
  injected configuration (\<open>None\<close>: it never does).
\<close>

record runtime =
  classList :: "objc_class list"
  exportedMethodsByModule :: "(string \<times> RCTModuleMethod list) list"
  stringIntegerValue :: "string \<Rightarrow> NSInteger"
  argumentType :: "string \<Rightarrow> string \<Rightarrow> nat \<Rightarrow> char"
  invocationRaises :: "native_call \<Rightarrow> bool"
  injectionAcknowledgedAfter :: "nat option"

section \<open>Errors, log messages and the bridge state\<close>

text \<open>
  Modelled from the spec: the macros \<open>RCTAssert\<close> and \<open>RCTCAssert\<close> (declared in a
  header that is not part of the sources at hand). The spec calls the conditions they
  guard fatal, so a failed assertion aborts the operation with \<open>AssertionFailure\<close>.
  An Objective-C exception that nothing catches aborts likewise.
\<close>

datatype assertion =
    ModuleNameAlreadyRegistered string
  | NotAValidJSMethodDefinition string
  | ModuleNotRegistered string
  | MethodNotRegistered string
  | NoModuleFoundForName string

text \<open>
  Modelled from the spec: the macro \<open>RCTLogMustFix\<close>, declared in \<open>RCTLog.h\<close>, which
  is not part of the sources at hand. The spec gives its reports two outcomes. For
  batch-level and request-level failures and for an exception of an invoked method it is
  log-and-continue ("log and return with zero dispatches", "log, skip", "logged,
  swallowed"): \<open>RCTLogMustFix\<close> below appends the message to the log and the caller
  goes on. For the handshake timeout it is fatal ("a timeout is a fatal configuration
  error (ConfigInjectionTimeout) - the bridge should not silently proceed"): there the
  report aborts construction with the error \<open>FatalMustFix\<close>.
\<close>

datatype log_message =
    BufferMustBeArray
  | MustPassAllFields nat nat
  | FieldMustBeArray nat
  | InvalidDataMessage nat
  | InvalidTuple nat
  | UnknownModuleID obj
  | UnknownMethodID NSInteger string
  | ExpectedArguments nat nat string string
  | TookTooLongToInject
  | ExceptionThrown string

datatype error =
    AssertionFailure assertion
  | UnrecognizedSelector obj
  | InsertNilObject
  | FatalMustFix log_message

text \<open>The blocks the bridge puts on its serial shadow queue.\<close>

datatype task =
    InvokeTask string RCTModuleMethod "obj list"
  | BatchDidCompleteTask

datatype executor = Executor nat

text \<open>The per-module and per-method entries of the configuration tables.\<close>

record method_config =
  methodID :: nat
  methodType :: string

record module_config =
  moduleID :: nat
  methods :: "(string \<times> method_config) list"
  constants :: "obj option"

text \<open>
  The state: the static tables filled by the registry build, the instance variables of
  the bridge, and what the bridge has done to its collaborators (log lines, calls
  handed to the script executor, configuration injected, messages sent to module
  instances).
\<close>

record bridge =
  RCTRemoteModulesByID :: "(obj \<times> string) list"
  RCTLocalModuleIDs :: "(string \<times> nat) list"
  RCTLocalMethodIDs :: "(string \<times> nat) list"
  latestJSExecutor :: "executor option"
  javaScriptExecutor :: "executor option"
  moduleInstances :: "(string \<times> objc_class) list"
  shadowQueue :: "task list"
  logs :: "log_message list"
  jsCalls :: "(string \<times> string \<times> obj list) list"
  injected :: "(string \<times> (string \<times> module_config) list \<times> (string \<times> module_config) list) list"
  nativeCalls :: "native_call list"

text \<open>An operation that aborts returns the error with the state reached at that point.\<close>

type_synonym outcome = "(error \<times> bridge) + bridge"

text \<open>
  Modelled from the spec: \<open>RCTLogMustFix\<close> at the sites the spec calls
  log-and-continue (see above).
\<close>

definition RCTLogMustFix :: "log_message \<Rightarrow> bridge \<Rightarrow> bridge" where
  "RCTLogMustFix m s = s\<lparr>logs := logs s @ [m]\<rparr>"

definition dispatch_async :: "task \<Rightarrow> bridge \<Rightarrow> bridge" where
  "dispatch_async t s = s\<lparr>shadowQueue := shadowQueue s @ [t]\<rparr>"

definition isValid :: "bridge \<Rightarrow> bool" where
  "isValid s = (javaScriptExecutor s \<noteq> None)"

text \<open>
  \<open>integerValue\<close>: numbers and strings respond to it; sending it to any other object
  raises for an unrecognized selector.
\<close>

fun integerValue :: "runtime \<Rightarrow> obj \<Rightarrow> NSInteger option" where
  "integerValue rt (NSNumber n) = Some (word_of_int n)"
| "integerValue rt (NSString str) = Some (stringIntegerValue rt str)"
| "integerValue rt _ = None"

section \<open>Payload processing\<close>

text \<open>
  The validation prefix of \<open>_handleRequestNumber:moduleID:methodID:params:\<close>: each
  early return yields the message it logs, and a request that passes yields the block to
  schedule. \<open>methodID >= methods.count\<close> compares an \<open>NSInteger\<close> with an
  \<open>NSUInteger\<close>, so the method id is read unsigned. A module name missing from the
  exported-methods dictionary gives \<open>nil\<close>, whose count is 0.
\<close>

definition resolveRequest ::
  "runtime \<Rightarrow> bridge \<Rightarrow> nat \<Rightarrow> obj \<Rightarrow> NSInteger \<Rightarrow> obj \<Rightarrow> log_message + task" where
  "resolveRequest rt s i modID mID params =
     (case params of
        NSArray ps \<Rightarrow>
          (case map_of (RCTRemoteModulesByID s) modID of
             None \<Rightarrow> Inl (UnknownModuleID modID)
           | Some name \<Rightarrow>
               (let ms = (case map_of (exportedMethodsByModule rt) name of
                            None \<Rightarrow> [] | Some l \<Rightarrow> l)
                in if unat mID \<ge> length ms then Inl (UnknownMethodID mID name)
                   else
                     (let method = ms ! unat mID
                      in if length ps \<noteq> arity method
                         then Inl (ExpectedArguments (arity method) (length ps) name
                                     (JSMethodName method))
                         else Inr (InvokeTask name method ps))))
      | _ \<Rightarrow> Inl (InvalidTuple i))"

definition handleRequestNumber ::
  "runtime \<Rightarrow> nat \<Rightarrow> obj \<Rightarrow> NSInteger \<Rightarrow> obj \<Rightarrow> bridge \<Rightarrow> bool \<times> bridge" where
  "handleRequestNumber rt i modID mID params s =
     (case resolveRequest rt s i modID mID params of
        Inl m \<Rightarrow> (False, RCTLogMustFix m s)
      | Inr t \<Rightarrow> (True, dispatch_async t s))"

text \<open>
  The request loop of \<open>_handleBuffer:\<close>, over the indices \<open>0 ..< numRequests\<close>. The
  argument \<open>[methodIDs[i] integerValue]\<close> is evaluated before the call; on an object
  that does not respond the exception leaves the loop.
\<close>

fun handleRequests ::
  "runtime \<Rightarrow> obj list \<Rightarrow> obj list \<Rightarrow> obj list \<Rightarrow> nat list \<Rightarrow> bridge \<Rightarrow> outcome" where
  "handleRequests rt moduleIDs methodIDs paramsArrays [] s = Inr s"
| "handleRequests rt moduleIDs methodIDs paramsArrays (i # is) s =
     (case integerValue rt (methodIDs ! i) of
        None \<Rightarrow> Inl (UnrecognizedSelector (methodIDs ! i), s)
      | Some mID \<Rightarrow>
          handleRequests rt moduleIDs methodIDs paramsArrays is
            (snd (handleRequestNumber rt i (moduleIDs ! i) mID (paramsArrays ! i) s)))"

definition isArray :: "obj \<Rightarrow> bool" where
  "isArray x = (case x of NSArray _ \<Rightarrow> True | _ \<Rightarrow> False)"

definition arrayElements :: "obj \<Rightarrow> obj list" where
  "arrayElements x = (case x of NSArray xs \<Rightarrow> xs | _ \<Rightarrow> [])"

text \<open>
  The loop over the field indices \<open>RCTBridgeFieldRequestModuleIDs ..
  RCTBridgeFieldParamss\<close>: the first field that is not an array, if any.
\<close>

definition firstNonArrayField :: "obj list \<Rightarrow> nat option" where
  "firstNonArrayField requestsArray =
     List.find (\<lambda>fieldIndex. \<not> isArray (requestsArray ! fieldIndex))
       [RCTBridgeFieldRequestModuleIDs ..< Suc RCTBridgeFieldParamss]"

definition handleBuffer :: "runtime \<Rightarrow> objc_id \<Rightarrow> bridge \<Rightarrow> outcome" where
  "handleBuffer rt buffer s =
     (case buffer of
        None \<Rightarrow> Inr s
      | Some NSNull \<Rightarrow> Inr s
      | Some (NSArray requestsArray) \<Rightarrow>
          (let bufferRowCount = length requestsArray;
               expectedFieldsCount = RCTBridgeFieldResponseReturnValues + 1
           in if bufferRowCount \<noteq> expectedFieldsCount
              then Inr (RCTLogMustFix (MustPassAllFields expectedFieldsCount bufferRowCount) s)
              else
                (case firstNonArrayField requestsArray of
                   Some fieldIndex \<Rightarrow> Inr (RCTLogMustFix (FieldMustBeArray fieldIndex) s)
                 | None \<Rightarrow>
                     (let moduleIDs = arrayElements (requestsArray ! RCTBridgeFieldRequestModuleIDs);
                          methodIDs = arrayElements (requestsArray ! RCTBridgeFieldMethodIDs);
                          paramsArrays = arrayElements (requestsArray ! RCTBridgeFieldParamss);
                          numRequests = length moduleIDs;
                          allSame = (numRequests = length methodIDs
                                      \<and> numRequests = length paramsArrays)
                      in if \<not> allSame
                         then Inr (RCTLogMustFix (InvalidDataMessage numRequests) s)
                         else
                           (case handleRequests rt moduleIDs methodIDs paramsArrays
                                   [0 ..< numRequests] s of
                              Inl e \<Rightarrow> Inl e
                            | Inr s' \<Rightarrow> Inr (dispatch_async BatchDidCompleteTask s')))))
      | Some _ \<Rightarrow> Inr (RCTLogMustFix BufferMustBeArray s))"


text \<open>
  The spec's \<open>MalformedBatchShape\<close> is the batch-level rejection: the four messages
  with which \<open>_handleBuffer:\<close> logs and returns before its request loop.
\<close>

definition MalformedBatchShape :: "log_message \<Rightarrow> bool" where
  "MalformedBatchShape m =
     (case m of
        BufferMustBeArray \<Rightarrow> True
      | MustPassAllFields _ _ \<Rightarrow> True
      | FieldMustBeArray _ \<Rightarrow> True
      | InvalidDataMessage _ \<Rightarrow> True
      | _ \<Rightarrow> False)"

section \<open>Callbacks and calls into the script runtime\<close>

text \<open>
  \<open>_invokeAndProcessModule:method:arguments:\<close> hands the call to the executor; a
  message to a \<open>nil\<close> executor does nothing. The buffer the script runtime answers
  with comes back later, as a separate \<open>handleBuffer\<close> step.
\<close>

definition invokeAndProcessModule :: "string \<Rightarrow> string \<Rightarrow> obj list \<Rightarrow> bridge \<Rightarrow> bridge" where
  "invokeAndProcessModule module method args s =
     (case javaScriptExecutor s of
        None \<Rightarrow> s
      | Some _ \<Rightarrow> s\<lparr>jsCalls := jsCalls s @ [(module, method, args)]\<rparr>)"

definition sendResponseToJavaScriptCallbackID :: "NSInteger \<Rightarrow> obj list \<Rightarrow> bridge \<Rightarrow> bridge" where
  "sendResponseToJavaScriptCallbackID cbID args s =
     invokeAndProcessModule ''BatchedBridge'' ''invokeCallbackAndReturnFlushedQueue''
       [NSNumber (sint cbID), NSArray args] s"

definition createResponseSenderBlock :: "NSInteger \<Rightarrow> RCTResponseSenderBlock option" where
  "createResponseSenderBlock cbID =
     (if cbID = 0 then None else Some (ResponseSenderBlock cbID))"

fun callResponseSenderBlock :: "RCTResponseSenderBlock \<Rightarrow> obj list \<Rightarrow> bridge \<Rightarrow> bridge" where
  "callResponseSenderBlock (ResponseSenderBlock cbID) args s =
     sendResponseToJavaScriptCallbackID cbID args s"

text \<open>The first component of \<open>componentsSeparatedByString:\<close>, and all of them.\<close>

fun componentsSeparatedBy :: "char \<Rightarrow> string \<Rightarrow> string list" where
  "componentsSeparatedBy c [] = [[]]"
| "componentsSeparatedBy c (x # xs) =
     (if x = c then [] # componentsSeparatedBy c xs
      else (case componentsSeparatedBy c xs of
              [] \<Rightarrow> [[x]]
            | p # ps \<Rightarrow> (x # p) # ps))"

definition firstObject :: "string list \<Rightarrow> string" where
  "firstObject parts = (case parts of [] \<Rightarrow> [] | p # _ \<Rightarrow> p)"

definition enqueueJSCall :: "string \<Rightarrow> obj list \<Rightarrow> bridge \<Rightarrow> outcome" where
  "enqueueJSCall moduleDotMethod args s =
     (case map_of (RCTLocalModuleIDs s) moduleDotMethod of
        None \<Rightarrow>
          Inl (AssertionFailure
                 (ModuleNotRegistered
                    (firstObject (componentsSeparatedBy (CHR ''.'') moduleDotMethod))), s)
      | Some modID \<Rightarrow>
          (case map_of (RCTLocalMethodIDs s) moduleDotMethod of
             None \<Rightarrow> Inl (AssertionFailure (MethodNotRegistered moduleDotMethod), s)
           | Some mID \<Rightarrow>
               Inr (invokeAndProcessModule ''BatchedBridge'' ''callFunctionReturnFlushedQueue''
                      [NSNumber (int modID), NSNumber (int mID), NSArray args] s)))"

section \<open>Argument marshaling and invocation\<close>

text \<open>
  The first step of the per-parameter block: \<open>NSNull\<close> becomes \<open>nil\<close>; otherwise, at a
  block argument index, the parameter is replaced by the response sender block for its
  integer value. That block is added to an \<open>NSMutableArray\<close>, which raises when the
  block is \<open>nil\<close> (callback id 0).
\<close>

datatype param_value = PNil | PBlock RCTResponseSenderBlock | PObject obj

definition substituteParam :: "runtime \<Rightarrow> RCTModuleMethod \<Rightarrow> nat \<Rightarrow> obj \<Rightarrow> error + param_value" where
  "substituteParam rt method idx param =
     (if param = NSNull then Inr PNil
      else if idx \<in> blockArgumentIndexes method then
        (case integerValue rt param of
           None \<Rightarrow> Inl (UnrecognizedSelector param)
         | Some cbID \<Rightarrow>
             (case createResponseSenderBlock cbID of
                None \<Rightarrow> Inl InsertNilObject
              | Some block \<Rightarrow> Inr (PBlock block)))
      else Inr (PObject param))"

text \<open>
  Which of the value selectors of the \<open>CASE\<close> table an object responds to: a number
  to all of them, a string to \<open>intValue\<close>, \<open>longLongValue\<close>, \<open>floatValue\<close>,
  \<open>doubleValue\<close> and \<open>boolValue\<close>, other objects to none.
\<close>

definition respondsToValueSelector :: "char \<Rightarrow> obj \<Rightarrow> bool" where
  "respondsToValueSelector c x =
     (case x of
        NSNumber _ \<Rightarrow> c \<in> set ''cCsSiIlLqQfdB''
      | NSString _ \<Rightarrow> c \<in> set ''iqfdB''
      | _ \<Rightarrow> False)"

text \<open>
  The \<open>switch\<close> on the first character of the argument type, and the final
  \<open>setArgument:\<close>. \<open>nil\<close> and a block are no string and respond to no value selector.
\<close>

definition setArgument :: "char \<Rightarrow> param_value \<Rightarrow> arg" where
  "setArgument c v =
     (case v of
        PNil \<Rightarrow> ANil
      | PBlock block \<Rightarrow> ABlock block
      | PObject x \<Rightarrow>
          (if c = CHR '':'' then (case x of NSString str \<Rightarrow> ASelector str | _ \<Rightarrow> AObject x)
           else if c = CHR ''*'' then (case x of NSString str \<Rightarrow> ACString str | _ \<Rightarrow> AObject x)
           else if c \<in> set ''cCsSiIlLqQfdB'' \<and> respondsToValueSelector c x
             then APrimitive c x
           else AObject x))"

fun marshalParams ::
  "runtime \<Rightarrow> string \<Rightarrow> RCTModuleMethod \<Rightarrow> nat \<Rightarrow> obj list \<Rightarrow> error + arg list" where
  "marshalParams rt name method idx [] = Inr []"
| "marshalParams rt name method idx (param # params) =
     (case substituteParam rt method idx param of
        Inl e \<Rightarrow> Inl e
      | Inr v \<Rightarrow>
          (case marshalParams rt name method (Suc idx) params of
             Inl e \<Rightarrow> Inl e
           | Inr args \<Rightarrow>
               Inr (setArgument (argumentType rt name (selector method) idx) v # args)))"

text \<open>
  Running one block of the shadow queue. The invocation block first re-checks validity;
  an exception raised by the invoked method is caught and logged, one raised while the
  arguments are prepared is not.
\<close>

fun runTask :: "runtime \<Rightarrow> task \<Rightarrow> bridge \<Rightarrow> outcome" where
  "runTask rt (InvokeTask name method params) s =
     (if \<not> isValid s then Inr s
      else
        (case map_of (moduleInstances s) name of
           None \<Rightarrow> Inl (AssertionFailure (NoModuleFoundForName name), s)
         | Some target \<Rightarrow>
             (case marshalParams rt name method 0 params of
                Inl e \<Rightarrow> Inl (e, s)
              | Inr args \<Rightarrow>
                  (let call = Invoke name (selector method) args;
                       s' = s\<lparr>nativeCalls := nativeCalls s @ [call]\<rparr>
                   in Inr (if invocationRaises rt call
                           then RCTLogMustFix (ExceptionThrown (JSMethodName method)) s'
                           else s')))))"
| "runTask rt BatchDidCompleteTask s =
     Inr (s\<lparr>nativeCalls := nativeCalls s @
               map (\<lambda>(name, target). BatchDidComplete name)
                 (filter (\<lambda>(name, target). respondsToBatchDidComplete target)
                    (moduleInstances s))\<rparr>)"

fun runTasks :: "runtime \<Rightarrow> task list \<Rightarrow> bridge \<Rightarrow> outcome" where
  "runTasks rt [] s = Inr s"
| "runTasks rt (t # ts) s =
     (case runTask rt t s of
        Inl e \<Rightarrow> Inl e
      | Inr s' \<Rightarrow> runTasks rt ts s')"

text \<open>The serial queue runs the blocks it holds, in the order they were added.\<close>

definition runShadowQueue :: "runtime \<Rightarrow> bridge \<Rightarrow> outcome" where
  "runShadowQueue rt s = runTasks rt (shadowQueue s) (s\<lparr>shadowQueue := []\<rparr>)"

section \<open>Invalidation\<close>

text \<open>
  \<open>dispatch_sync\<close> of an empty block waits until every block already on the shadow
  queue has run.
\<close>

definition invalidate :: "runtime \<Rightarrow> bridge \<Rightarrow> outcome" where
  "invalidate rt s =
     (let s1 = s\<lparr>latestJSExecutor :=
                   (if latestJSExecutor s = javaScriptExecutor s then None
                    else latestJSExecutor s),
                 javaScriptExecutor := None\<rparr>
      in case runShadowQueue rt s1 of
           Inl e \<Rightarrow> Inl e
         | Inr s2 \<Rightarrow>
             Inr (s2\<lparr>nativeCalls := nativeCalls s2 @
                        map (\<lambda>(name, target). Invalidate name)
                          (filter (\<lambda>(name, target). respondsToInvalidate target)
                             (moduleInstances s2)),
                      moduleInstances := []\<rparr>))"

section \<open>Registry build\<close>

text \<open>
  Dictionaries built by the registry are association lists with distinct keys;
  \<open>dict[key] = value\<close> is \<open>AList.update\<close>, which replaces the entry of a key that is
  present and appends a new one otherwise, and \<open>count\<close> is the length. The order in
  which Foundation enumerates a dictionary is not specified; here it is the order of
  the list.
\<close>

definition moduleNameOf :: "objc_class \<Rightarrow> string" where
  "moduleNameOf cls = (case moduleName cls of Some name \<Rightarrow> name | None \<Rightarrow> className cls)"

text \<open>The class scan of \<open>RCTBridgeModuleClasses()\<close>.\<close>

fun scanClasses ::
  "objc_class list \<Rightarrow> (string \<times> objc_class) list \<Rightarrow> error + (string \<times> objc_class) list" where
  "scanClasses [] modules = Inr modules"
| "scanClasses (cls # classes) modules =
     (if \<not> hasSuperclass cls then scanClasses classes modules
      else if \<not> conformsToRCTBridgeModule cls then scanClasses classes modules
      else
        (case map_of modules (moduleNameOf cls) of
           Some existingClass \<Rightarrow>
             Inl (AssertionFailure (ModuleNameAlreadyRegistered (moduleNameOf cls)))
         | None \<Rightarrow> scanClasses classes (AList.update (moduleNameOf cls) cls modules)))"

definition RCTBridgeModuleClasses :: "runtime \<Rightarrow> error + (string \<times> objc_class) list" where
  "RCTBridgeModuleClasses rt = scanClasses (classList rt) []"

text \<open>
  \<open>RCTRemoteModulesConfig()\<close>: the methods dictionary of one module (method ids are
  the indices of the raw methods), then one step of the enumeration of the exported
  methods, which also fills \<open>RCTRemoteModulesByID\<close>.
\<close>

definition remoteMethods :: "RCTModuleMethod list \<Rightarrow> (string \<times> method_config) list" where
  "remoteMethods rawMethods =
     fold (\<lambda>(mID, method). AList.update (JSMethodName method)
                               \<lparr>methodID = mID, methodType = ''remote''\<rparr>)
       (List.enumerate 0 rawMethods) []"

definition remoteStep ::
  "(string \<times> objc_class) list \<Rightarrow> string \<times> RCTModuleMethod list \<Rightarrow>
   (string \<times> module_config) list \<times> (obj \<times> string) list \<Rightarrow>
   (string \<times> module_config) list \<times> (obj \<times> string) list" where
  "remoteStep classes entry acc =
     (case entry of (name, rawMethods) \<Rightarrow>
       (case acc of (remoteModules, byID) \<Rightarrow>
          (let module = \<lparr>moduleID = length remoteModules,
                         methods = remoteMethods rawMethods,
                         constants = (case map_of classes name of
                                        None \<Rightarrow> None
                                      | Some cls \<Rightarrow> constantsToExport cls)\<rparr>
           in (AList.update name module remoteModules,
               AList.update (NSNumber (int (moduleID module))) name byID))))"

definition RCTRemoteModulesConfig ::
  "runtime \<Rightarrow> (string \<times> objc_class) list \<Rightarrow>
   (string \<times> module_config) list \<times> (obj \<times> string) list" where
  "RCTRemoteModulesConfig rt classes =
     fold (remoteStep classes) (exportedMethodsByModule rt) ([], [])"

text \<open>
  \<open>RCTLocalModulesConfig()\<close>: the list of \<open>Module.method\<close> names, then one step of
  the loop over it. The methods dictionary of a module is mutable and shared with the
  module's entry, so adding a method updates the entry.
\<close>

definition localJSMethods :: "(string \<times> objc_class) list \<Rightarrow> string list" where
  "localJSMethods classes =
     [''Bundler.runApplication'',
      ''RCTEventEmitter.receiveEvent'',
      ''RCTEventEmitter.receiveTouches''] @
     concat (map (\<lambda>(name, cls). case JSMethods cls of Some l \<Rightarrow> l | None \<Rightarrow> []) classes)"

type_synonym local_tables =
  "(string \<times> module_config) list \<times> (string \<times> nat) list \<times> (string \<times> nat) list"

definition localStep :: "string \<Rightarrow> local_tables \<Rightarrow> error + local_tables" where
  "localStep moduleDotMethod acc =
     (case acc of (localModules, localModuleIDs, localMethodIDs) \<Rightarrow>
      (case componentsSeparatedBy (CHR ''.'') moduleDotMethod of
        [modName, methName] \<Rightarrow>
          (let (module, localModules1) =
                 (case map_of localModules modName of
                    Some m \<Rightarrow> (m, localModules)
                  | None \<Rightarrow>
                      (let m = \<lparr>moduleID = length localModules, methods = [],
                                constants = None\<rparr>
                       in (m, AList.update modName m localModules)));
               (entry, methods1) =
                 (case map_of (methods module) methName of
                    Some e \<Rightarrow> (e, methods module)
                  | None \<Rightarrow>
                      (let e = \<lparr>methodID = length (methods module), methodType = ''local''\<rparr>
                       in (e, AList.update methName e (methods module))))
           in Inr (AList.update modName (module\<lparr>methods := methods1\<rparr>) localModules1,
                   AList.update moduleDotMethod (moduleID module) localModuleIDs,
                   AList.update moduleDotMethod (methodID entry) localMethodIDs))
      | _ \<Rightarrow> Inl (AssertionFailure (NotAValidJSMethodDefinition moduleDotMethod))))"

fun localLoop :: "string list \<Rightarrow> local_tables \<Rightarrow> error + local_tables" where
  "localLoop [] acc = Inr acc"
| "localLoop (moduleDotMethod # rest) acc =
     (case localStep moduleDotMethod acc of
        Inl e \<Rightarrow> Inl e
      | Inr acc' \<Rightarrow> localLoop rest acc')"

definition RCTLocalModulesConfig :: "(string \<times> objc_class) list \<Rightarrow> error + local_tables" where
  "RCTLocalModulesConfig classes = localLoop (localJSMethods classes) ([], [], [])"

section \<open>Construction\<close>

text \<open>
  \<open>dispatch_semaphore_wait\<close> on a semaphore created with the value 0 and signalled
  once, \<open>signalAfter\<close> nanoseconds from now (\<open>None\<close>: never), with a timeout of
  \<open>timeout\<close> nanoseconds from now: the calling thread is blocked until the signal or
  the timeout, whichever comes first, and the result is 0 when the signal came first and
  nonzero when the wait timed out.
\<close>

definition NSEC_PER_SEC :: nat where
  "NSEC_PER_SEC = 1000000000"

definition dispatch_semaphore_wait :: "nat option \<Rightarrow> nat \<Rightarrow> nat" where
  "dispatch_semaphore_wait signalAfter timeout =
     (case signalAfter of
        None \<Rightarrow> 1
      | Some d \<Rightarrow> if d < timeout then 0 else 1)"

text \<open>
  \<open>initWithJavaScriptExecutor:\<close> instantiates every module class, builds both
  configuration tables, injects them and waits on the semaphore for at most a second.
  When the wait times out the source reports through \<open>RCTLogMustFix\<close>; following the
  spec, that report is fatal.
\<close>

definition initWithJavaScriptExecutor :: "runtime \<Rightarrow> executor \<Rightarrow> error + bridge" where
  "initWithJavaScriptExecutor rt ex =
     (case RCTBridgeModuleClasses rt of
        Inl e \<Rightarrow> Inl e
      | Inr classes \<Rightarrow>
          (case RCTRemoteModulesConfig rt classes of (remoteModules, byID) \<Rightarrow>
           (case RCTLocalModulesConfig classes of
             Inl e \<Rightarrow> Inl e
           | Inr (localModules, localModuleIDs, localMethodIDs) \<Rightarrow>
               (let s = \<lparr>RCTRemoteModulesByID = byID,
                          RCTLocalModuleIDs = localModuleIDs,
                          RCTLocalMethodIDs = localMethodIDs,
                          latestJSExecutor = Some ex,
                          javaScriptExecutor = Some ex,
                          moduleInstances = classes,
                          shadowQueue = [],
                          logs = [],
                          jsCalls = [],
                          injected = [(''__fbBatchedBridgeConfig'', remoteModules, localModules)],
                          nativeCalls = []\<rparr>
                in if dispatch_semaphore_wait (injectionAcknowledgedAfter rt) NSEC_PER_SEC \<noteq> 0
                   then Inl (FatalMustFix TookTooLongToInject)
                   else Inr s))))"

section \<open>What the registry build maintains\<close>




section \<open>The bridge at work\<close>

text \<open>
  What can happen to a constructed bridge, one step at a time: the script runtime
  delivers a buffer, the shadow queue runs the block at its head, the host enqueues a
  call, or a module calls a response sender block. An operation that aborts is no step.
\<close>

inductive step :: "runtime \<Rightarrow> bridge \<Rightarrow> bridge \<Rightarrow> bool" for rt :: runtime where
  deliver: "handleBuffer rt buffer s = Inr s' \<Longrightarrow> step rt s s'"
| run: "shadowQueue s = t # ts \<Longrightarrow> runTask rt t (s\<lparr>shadowQueue := ts\<rparr>) = Inr s' \<Longrightarrow> step rt s s'"
| enqueue: "enqueueJSCall moduleDotMethod args s = Inr s' \<Longrightarrow> step rt s s'"
| respond: "step rt s (callResponseSenderBlock block args s)"


section \<open>An example configuration\<close>

text \<open>
  Eight module classes \<open>A\<close> to \<open>H\<close>, each exporting a method \<open>ping\<close> without
  arguments and a method \<open>fetch\<close> with an object and a callback; the bridge that
  construction yields for them is \<open>exampleBridge\<close>.
\<close>

definition pingMethod :: RCTModuleMethod where
  "pingMethod = \<lparr>selector = ''ping'', JSMethodName = ''ping'', arity = 0, blockArgumentIndexes = {}\<rparr>"

definition fetchMethod :: RCTModuleMethod where
  "fetchMethod = \<lparr>selector = ''fetch:callback:'', JSMethodName = ''fetch'', arity = 2,
                   blockArgumentIndexes = {1}\<rparr>"

definition exampleClass :: "string \<Rightarrow> objc_class" where
  "exampleClass name = \<lparr>className = name, hasSuperclass = True,
     conformsToRCTBridgeModule = True, moduleName = None, constantsToExport = None,
     JSMethods = None, respondsToInvalidate = False, respondsToBatchDidComplete = False\<rparr>"

definition exampleNames :: "string list" where
  "exampleNames = [''A'', ''B'', ''C'', ''D'', ''E'', ''F'', ''G'', ''H'']"

definition exampleRuntime :: runtime where
  "exampleRuntime = \<lparr>classList = map exampleClass exampleNames,
     exportedMethodsByModule = map (\<lambda>name. (name, [pingMethod, fetchMethod])) exampleNames,
     stringIntegerValue = (\<lambda>str. 0),
     argumentType = (\<lambda>name sel idx. CHR ''@''),
     invocationRaises = (\<lambda>call. False),
     injectionAcknowledgedAfter = Some 1000\<rparr>"

definition exampleBridge :: bridge where
  "exampleBridge =
     \<lparr>RCTRemoteModulesByID = map (\<lambda>(i, name). (NSNumber i, name)) (zip [0, 1, 2, 3, 4, 5, 6, 7] exampleNames),
      RCTLocalModuleIDs = [(''Bundler.runApplication'', 0),
                           (''RCTEventEmitter.receiveEvent'', 1),
                           (''RCTEventEmitter.receiveTouches'', 1)],
      RCTLocalMethodIDs = [(''Bundler.runApplication'', 0),
                           (''RCTEventEmitter.receiveEvent'', 0),
                           (''RCTEventEmitter.receiveTouches'', 1)],
      latestJSExecutor = Some (Executor 0),
      javaScriptExecutor = Some (Executor 0),
      moduleInstances = map (\<lambda>name. (name, exampleClass name)) exampleNames,
      shadowQueue = [],
      logs = [],
      jsCalls = [],
      injected = [(''__fbBatchedBridgeConfig'',
                   map (\<lambda>(i, name). (name, \<lparr>moduleID = i,
                          methods = [(''ping'', \<lparr>methodID = 0, methodType = ''remote''\<rparr>),
                                     (''fetch'', \<lparr>methodID = 1, methodType = ''remote''\<rparr>)],
                          constants = None\<rparr>)) (zip [0, 1, 2, 3, 4, 5, 6, 7] exampleNames),
                   [(''Bundler'', \<lparr>moduleID = 0,
                        methods = [(''runApplication'', \<lparr>methodID = 0, methodType = ''local''\<rparr>)],
                        constants = None\<rparr>),
                    (''RCTEventEmitter'', \<lparr>moduleID = 1,
                        methods = [(''receiveEvent'', \<lparr>methodID = 0, methodType = ''local''\<rparr>),
                                   (''receiveTouches'', \<lparr>methodID = 1, methodType = ''local''\<rparr>)],
                        constants = None\<rparr>)])],
      nativeCalls = []\<rparr>"


text \<open>
  Variants: two classes that claim the module name \<open>A\<close>, an executor that
  acknowledges the injected configuration after two seconds, and the example bridge invalidated.
  Three more class lists for the registry build: a class \<open>A\<close> that declares the script-side
  names \<open>Z.emit\<close> and \<open>RCTEventEmitter.receiveEvent\<close>, a class \<open>A\<close> that declares the
  name \<open>emit\<close>, and a module class \<open>Z\<close> that exports no method.
\<close>

definition duplicateRuntime :: runtime where
  "duplicateRuntime = exampleRuntime\<lparr>classList :=
      [exampleClass ''A'', (exampleClass ''B'')\<lparr>moduleName := Some ''A''\<rparr>]\<rparr>"



definition invalidatedBridge :: bridge where
  "invalidatedBridge = exampleBridge\<lparr>latestJSExecutor := None, javaScriptExecutor := None,
                                      moduleInstances := []\<rparr>"




section \<open>Facts about the example configuration\<close>

lemma example_classes:
  "RCTBridgeModuleClasses exampleRuntime = Inr (map (\<lambda>name. (name, exampleClass name)) exampleNames)"
  by (simp add: RCTBridgeModuleClasses_def exampleRuntime_def exampleNames_def exampleClass_def
      moduleNameOf_def)

lemma example_remote:
  "RCTRemoteModulesConfig exampleRuntime (map (\<lambda>name. (name, exampleClass name)) exampleNames) =
    (map (\<lambda>(i, name). (name, \<lparr>moduleID = i,
                          methods = [(''ping'', \<lparr>methodID = 0, methodType = ''remote''\<rparr>),
                                     (''fetch'', \<lparr>methodID = 1, methodType = ''remote''\<rparr>)],
                          constants = None\<rparr>)) (zip [0, 1, 2, 3, 4, 5, 6, 7] exampleNames),
     map (\<lambda>(i, name). (NSNumber i, name)) (zip [0, 1, 2, 3, 4, 5, 6, 7] exampleNames))"
  by (simp add: RCTRemoteModulesConfig_def exampleRuntime_def exampleNames_def exampleClass_def
      remoteStep_def remoteMethods_def pingMethod_def fetchMethod_def enumerate_eq_zip)

lemma example_local:
  "RCTLocalModulesConfig (map (\<lambda>name. (name, exampleClass name)) exampleNames) =
     Inr ([(''Bundler'', \<lparr>moduleID = 0,
                        methods = [(''runApplication'', \<lparr>methodID = 0, methodType = ''local''\<rparr>)],
                        constants = None\<rparr>),
                    (''RCTEventEmitter'', \<lparr>moduleID = 1,
                        methods = [(''receiveEvent'', \<lparr>methodID = 0, methodType = ''local''\<rparr>),
                                   (''receiveTouches'', \<lparr>methodID = 1, methodType = ''local''\<rparr>)],
                        constants = None\<rparr>)],
          [(''Bundler.runApplication'', 0),
                           (''RCTEventEmitter.receiveEvent'', 1),
                           (''RCTEventEmitter.receiveTouches'', 1)],
          [(''Bundler.runApplication'', 0),
                           (''RCTEventEmitter.receiveEvent'', 0),
                           (''RCTEventEmitter.receiveTouches'', 1)])"
  by (simp add: RCTLocalModulesConfig_def localJSMethods_def exampleNames_def exampleClass_def
      localStep_def Let_def)

lemma example_init:
  "initWithJavaScriptExecutor exampleRuntime (Executor 0) = Inr exampleBridge"
  by (simp add: initWithJavaScriptExecutor_def example_classes example_remote example_local
      exampleBridge_def)
     (simp add: exampleRuntime_def dispatch_semaphore_wait_def NSEC_PER_SEC_def)

section \<open>Payload processing: shape validation and per-request validation\<close>

lemma resolveRequest_cong:
  "RCTRemoteModulesByID s' = RCTRemoteModulesByID s \<Longrightarrow>
   resolveRequest rt s' i m k p = resolveRequest rt s i m k p"
  by (simp add: resolveRequest_def split: obj.splits)

lemma handleRequestNumber_tables [simp]:
  "RCTRemoteModulesByID (snd (handleRequestNumber rt i m k p s)) = RCTRemoteModulesByID s"
  by (simp add: handleRequestNumber_def RCTLogMustFix_def dispatch_async_def split: sum.splits)

lemma handleRequestNumber_effect:
  "snd (handleRequestNumber rt i m k p s) =
     s\<lparr>shadowQueue := shadowQueue s @ [t. Inr t \<leftarrow> [resolveRequest rt s i m k p]],
       logs := logs s @ [e. Inl e \<leftarrow> [resolveRequest rt s i m k p]]\<rparr>"
  by (simp add: handleRequestNumber_def RCTLogMustFix_def dispatch_async_def split: sum.splits)

lemma handleRequests_all:
  "\<forall>i\<in>set is. integerValue rt (methodIDs ! i) = Some (mIDs ! i) \<Longrightarrow>
   handleRequests rt moduleIDs methodIDs paramsArrays is s =
     Inr (s\<lparr>shadowQueue := shadowQueue s @
               [t. Inr t \<leftarrow> map (\<lambda>i. resolveRequest rt s i (moduleIDs ! i) (mIDs ! i) (paramsArrays ! i)) is],
             logs := logs s @
               [e. Inl e \<leftarrow> map (\<lambda>i. resolveRequest rt s i (moduleIDs ! i) (mIDs ! i) (paramsArrays ! i)) is]\<rparr>)"
proof (induction "is" arbitrary: s)
  case Nil
  show ?case by simp
next
  case (Cons i "is")
  let ?s1 = "snd (handleRequestNumber rt i (moduleIDs ! i) (mIDs ! i) (paramsArrays ! i) s)"
  have r: "\<And>j. resolveRequest rt ?s1 j (moduleIDs ! j) (mIDs ! j) (paramsArrays ! j)
            = resolveRequest rt s j (moduleIDs ! j) (mIDs ! j) (paramsArrays ! j)"
    by (rule resolveRequest_cong) simp
  from Cons.prems have iv: "integerValue rt (methodIDs ! i) = Some (mIDs ! i)"
    and rest: "\<forall>i\<in>set is. integerValue rt (methodIDs ! i) = Some (mIDs ! i)" by simp_all
  show ?case
    by (simp add: iv Cons.IH [OF rest] r) (simp add: handleRequestNumber_effect split: sum.splits)
qed

lemma firstNonArrayField_arrays:
  "firstNonArrayField (NSArray ms # NSArray ns # NSArray ps # rest) = None"
  by (simp add: firstNonArrayField_def RCTBridgeFieldRequestModuleIDs_def
      RCTBridgeFieldParamss_def isArray_def upt_rec)

lemma firstNonArrayField_None:
  "firstNonArrayField (a # b # c # rest) = None \<longleftrightarrow> isArray a \<and> isArray b \<and> isArray c"
  by (auto simp add: firstNonArrayField_def RCTBridgeFieldRequestModuleIDs_def
      RCTBridgeFieldParamss_def upt_rec)

lemma isArray_conv: "isArray x \<longleftrightarrow> (\<exists>xs. x = NSArray xs)"
  by (cases x) (simp_all add: isArray_def)

lemma length_five:
  "length xs = 5 \<longleftrightarrow> (\<exists>a b c d e. xs = [a, b, c, d, e])"
  by (auto simp add: length_Suc_conv eval_nat_numeral)

lemma handleBuffer_wrong_count:
  "length xs \<noteq> 5 \<Longrightarrow>
   handleBuffer rt (Some (NSArray xs)) s =
     Inr (RCTLogMustFix (MustPassAllFields 5 (length xs)) s)"
  by (simp add: handleBuffer_def RCTBridgeFieldResponseReturnValues_def)

lemma handleBuffer_field_not_array:
  "length xs = 5 \<Longrightarrow> firstNonArrayField xs = Some k \<Longrightarrow>
   handleBuffer rt (Some (NSArray xs)) s = Inr (RCTLogMustFix (FieldMustBeArray k) s)"
  by (simp add: handleBuffer_def RCTBridgeFieldResponseReturnValues_def)

lemma handleBuffer_not_all_same:
  "\<not> (length ms = length ns \<and> length ms = length ps) \<Longrightarrow>
   handleBuffer rt (Some (NSArray [NSArray ms, NSArray ns, NSArray ps, f3, f4])) s =
     Inr (RCTLogMustFix (InvalidDataMessage (length ms)) s)"
  by (auto simp add: handleBuffer_def RCTBridgeFieldResponseReturnValues_def
        RCTBridgeFieldRequestModuleIDs_def RCTBridgeFieldMethodIDs_def
        RCTBridgeFieldParamss_def arrayElements_def Let_def firstNonArrayField_arrays)

text \<open>
  Claim C1, as the code has it: \<open>_handleBuffer:\<close> expects
  \<open>RCTBridgeFieldResponseReturnValues + 1 = 5\<close> fields. An array buffer with any other
  number of fields is rejected with the \<open>MalformedBatchShape\<close> message
  \<open>MustPassAllFields\<close> and schedules nothing; and a buffer on which anything is
  scheduled (or on which the request loop is entered and aborts) is an array of exactly
  five fields whose first three are arrays of equal length.
\<close>

theorem C1_field_count_five:
  "(length requestsArray \<noteq> 5 \<longrightarrow>
      handleBuffer rt (Some (NSArray requestsArray)) s =
        Inr (s\<lparr>logs := logs s @ [MustPassAllFields 5 (length requestsArray)]\<rparr>)
      \<and> MalformedBatchShape (MustPassAllFields 5 (length requestsArray)))
   \<and> ((\<exists>e. handleBuffer rt buffer s = Inl e)
        \<or> (\<exists>s'. handleBuffer rt buffer s = Inr s' \<and> shadowQueue s' \<noteq> shadowQueue s)
      \<longrightarrow> (\<exists>ms ns ps cbIDs returnValues.
             buffer = Some (NSArray [NSArray ms, NSArray ns, NSArray ps, cbIDs, returnValues])
             \<and> length ns = length ms \<and> length ps = length ms))"
proof (intro conjI impI)
  assume "length requestsArray \<noteq> 5"
  then show "handleBuffer rt (Some (NSArray requestsArray)) s =
        Inr (s\<lparr>logs := logs s @ [MustPassAllFields 5 (length requestsArray)]\<rparr>)"
    by (simp add: handleBuffer_def RCTBridgeFieldResponseReturnValues_def RCTLogMustFix_def)
next
  show "MalformedBatchShape (MustPassAllFields 5 (length requestsArray))"
    by (simp add: MalformedBatchShape_def)
next
  assume acc: "(\<exists>e. handleBuffer rt buffer s = Inl e)
        \<or> (\<exists>s'. handleBuffer rt buffer s = Inr s' \<and> shadowQueue s' \<noteq> shadowQueue s)"
  have rej: "\<forall>m. handleBuffer rt buffer s \<noteq> Inr (RCTLogMustFix m s)"
    using acc by (auto simp add: RCTLogMustFix_def)
  have rej0: "handleBuffer rt buffer s \<noteq> Inr s"
    using acc by auto
  from rej0 obtain b where b: "buffer = Some b"
    by (cases buffer) (auto simp add: handleBuffer_def)
  from rej rej0 b obtain xs where xs: "b = NSArray xs"
    by (cases b) (auto simp add: handleBuffer_def)
  have len: "length xs = 5"
  proof (rule ccontr)
    assume "length xs \<noteq> 5"
    from handleBuffer_wrong_count [OF this, of rt s] show False
      using rej b xs by auto
  qed
  then obtain f0 f1 f2 f3 f4 where fs: "xs = [f0, f1, f2, f3, f4]"
    by (auto simp add: length_five)
  have arr: "firstNonArrayField xs = None"
  proof (cases "firstNonArrayField xs")
    case None then show ?thesis .
  next
    case (Some k)
    from handleBuffer_field_not_array [OF len this, of rt s] show ?thesis
      using rej b xs by auto
  qed
  then obtain ms ns ps where f: "f0 = NSArray ms" "f1 = NSArray ns" "f2 = NSArray ps"
    unfolding fs firstNonArrayField_None isArray_conv by blast
  have same: "length ms = length ns \<and> length ms = length ps"
  proof (rule ccontr)
    assume "\<not> (length ms = length ns \<and> length ms = length ps)"
    from handleBuffer_not_all_same [OF this, of rt f3 f4 s] show False
      using rej b xs fs f by auto
  qed
  show "\<exists>ms ns ps cbIDs returnValues.
             buffer = Some (NSArray [NSArray ms, NSArray ns, NSArray ps, cbIDs, returnValues])
             \<and> length ns = length ms \<and> length ps = length ms"
    using b xs fs f same by simp
qed

text \<open>
  Claim C2: a buffer whose first three fields are arrays of unequal lengths is dropped
  whole. The shadow queue is unchanged, so no request of it is dispatched, and one
  \<open>MalformedBatchShape\<close> message is logged: \<open>InvalidDataMessage\<close> when the buffer
  has its five fields, \<open>MustPassAllFields\<close> when the field count is wrong as well.
\<close>

theorem C2_unequal_lengths_rejected:
  assumes "\<not> (length ms = length ns \<and> length ms = length ps)"
  shows "handleBuffer rt (Some (NSArray (NSArray ms # NSArray ns # NSArray ps # rest))) s =
           Inr (s\<lparr>logs := logs s @
                   [if length rest = 2 then InvalidDataMessage (length ms)
                    else MustPassAllFields 5 (length rest + 3)]\<rparr>)
         \<and> MalformedBatchShape (if length rest = 2 then InvalidDataMessage (length ms)
                                 else MustPassAllFields 5 (length rest + 3))"
  using assms
  by (auto simp add: handleBuffer_def RCTBridgeFieldResponseReturnValues_def
        RCTBridgeFieldRequestModuleIDs_def RCTBridgeFieldMethodIDs_def
        RCTBridgeFieldParamss_def arrayElements_def Let_def firstNonArrayField_arrays
        RCTLogMustFix_def MalformedBatchShape_def)

text \<open>The four outcomes of validating a request whose parameters are an array.\<close>

lemma unknown_module_dropped:
  "map_of (RCTRemoteModulesByID s) modID = None \<Longrightarrow>
   resolveRequest rt s i modID mID (NSArray ps) = Inl (UnknownModuleID modID)"
  by (simp add: resolveRequest_def Let_def)

lemma unknown_method_dropped:
  "map_of (RCTRemoteModulesByID s) modID = Some name \<Longrightarrow>
   map_of (exportedMethodsByModule rt) name = Some ms \<Longrightarrow> length ms \<le> unat mID \<Longrightarrow>
   resolveRequest rt s i modID mID (NSArray ps) = Inl (UnknownMethodID mID name)"
  by (simp add: resolveRequest_def Let_def)

lemma arity_mismatch_dropped:
  "map_of (RCTRemoteModulesByID s) modID = Some name \<Longrightarrow>
   map_of (exportedMethodsByModule rt) name = Some ms \<Longrightarrow> unat mID < length ms \<Longrightarrow>
   length ps \<noteq> arity (ms ! unat mID) \<Longrightarrow>
   resolveRequest rt s i modID mID (NSArray ps) =
     Inl (ExpectedArguments (arity (ms ! unat mID)) (length ps) name
            (JSMethodName (ms ! unat mID)))"
  by (simp add: resolveRequest_def Let_def)

lemma valid_request_scheduled:
  "map_of (RCTRemoteModulesByID s) modID = Some name \<Longrightarrow>
   map_of (exportedMethodsByModule rt) name = Some ms \<Longrightarrow> unat mID < length ms \<Longrightarrow>
   length ps = arity (ms ! unat mID) \<Longrightarrow>
   resolveRequest rt s i modID mID (NSArray ps) = Inr (InvokeTask name (ms ! unat mID) ps)"
  by (simp add: resolveRequest_def Let_def)

text \<open>
  Where the request loop does isolate requests: in a batch of valid shape whose method
  ids all respond to \<open>integerValue\<close>, the fate of request \<open>i\<close> is its own validation
  result \<open>resolveRequest\<close>, taken in the state before the batch: a request that fails
  (parameters that are no array, unknown module id, method id out of range, wrong number
  of parameters) adds its one message to the log and nothing else, and every request
  that passes is scheduled, in index order, followed by the batch-complete block.
\<close>

lemma requests_independent:
  assumes "length moduleIDs = n" and "length paramsArrays = n" and "length mIDs = n"
    and "map (integerValue rt) methodIDs = map Some mIDs"
  shows "handleBuffer rt
           (Some (NSArray [NSArray moduleIDs, NSArray methodIDs, NSArray paramsArrays,
                           cbIDs, returnValues])) s =
         Inr (s\<lparr>shadowQueue := shadowQueue s @
                   [t. Inr t \<leftarrow> map (\<lambda>i. resolveRequest rt s i (moduleIDs ! i) (mIDs ! i)
                                              (paramsArrays ! i)) [0 ..< n]]
                   @ [BatchDidCompleteTask],
                 logs := logs s @
                   [m. Inl m \<leftarrow> map (\<lambda>i. resolveRequest rt s i (moduleIDs ! i) (mIDs ! i)
                                              (paramsArrays ! i)) [0 ..< n]]\<rparr>)"
proof -
  from assms(4) have len: "length methodIDs = length mIDs"
    by (metis length_map)
  have iv: "\<forall>i\<in>set [0 ..< n]. integerValue rt (methodIDs ! i) = Some (mIDs ! i)"
  proof
    fix i assume "i \<in> set [0 ..< n]"
    then have i: "i < length methodIDs" using len assms(3) by simp
    have "map (integerValue rt) methodIDs ! i = map Some mIDs ! i"
      using assms(4) by simp
    then show "integerValue rt (methodIDs ! i) = Some (mIDs ! i)"
      using i len by simp
  qed
  show ?thesis
    using assms(1-3) len
    by (simp add: handleBuffer_def RCTBridgeFieldResponseReturnValues_def
        RCTBridgeFieldRequestModuleIDs_def RCTBridgeFieldMethodIDs_def
        RCTBridgeFieldParamss_def arrayElements_def Let_def firstNonArrayField_arrays
        handleRequests_all [OF iv] dispatch_async_def)
qed

lemma example_tables:
  "RCTRemoteModulesByID exampleBridge =
     [(NSNumber 0, ''A''), (NSNumber 1, ''B''), (NSNumber 2, ''C''), (NSNumber 3, ''D''),
      (NSNumber 4, ''E''), (NSNumber 5, ''F''), (NSNumber 6, ''G''), (NSNumber 7, ''H'')]"
  by (simp add: exampleBridge_def exampleNames_def)

lemma example_resolve_7:
  "resolveRequest exampleRuntime exampleBridge i (NSNumber 7) 0 (NSArray []) =
     Inr (InvokeTask ''H'' pingMethod [])"
  by (simp add: resolveRequest_def example_tables exampleRuntime_def exampleNames_def
      pingMethod_def)

lemma example_resolve_99:
  "resolveRequest exampleRuntime exampleBridge i (NSNumber 99) 0 (NSArray []) =
     Inl (UnknownModuleID (NSNumber 99))"
  by (simp add: resolveRequest_def example_tables)

lemma example_resolve_arity:
  "resolveRequest exampleRuntime exampleBridge i (NSNumber 7) 1 (NSArray [NSString ''x'']) =
     Inl (ExpectedArguments 2 1 ''H'' ''fetch'')"
  by (simp add: resolveRequest_def example_tables exampleRuntime_def exampleNames_def
      fetchMethod_def)

lemma example_five_fields:
  "handleBuffer exampleRuntime
     (Some (NSArray [NSArray [NSNumber 7], NSArray [NSNumber 0], NSArray [NSArray []],
                     NSArray [], NSArray []])) exampleBridge =
   Inr (exampleBridge\<lparr>shadowQueue := [InvokeTask ''H'' pingMethod [], BatchDidCompleteTask]\<rparr>)"
  by (simp add: handleBuffer_def RCTBridgeFieldResponseReturnValues_def
        RCTBridgeFieldRequestModuleIDs_def RCTBridgeFieldMethodIDs_def
        RCTBridgeFieldParamss_def arrayElements_def Let_def firstNonArrayField_arrays
        handleRequestNumber_def example_resolve_7 dispatch_async_def)
     (simp add: exampleBridge_def)

text \<open>
  Claim C1 as stated (exactly 6 fields) fails: a buffer of five fields is accepted and its
  request scheduled, and the same buffer with a sixth field, the flush date, is rejected.
\<close>

theorem C1_six_fields_counterexample:
  "handleBuffer exampleRuntime
     (Some (NSArray [NSArray [NSNumber 7], NSArray [NSNumber 0], NSArray [NSArray []],
                     NSArray [], NSArray []])) exampleBridge =
     Inr (exampleBridge\<lparr>shadowQueue := [InvokeTask ''H'' pingMethod [], BatchDidCompleteTask]\<rparr>)
   \<and> handleBuffer exampleRuntime
     (Some (NSArray [NSArray [NSNumber 7], NSArray [NSNumber 0], NSArray [NSArray []],
                     NSArray [], NSArray [], NSNumber 0])) exampleBridge =
     Inr (exampleBridge\<lparr>logs := [MustPassAllFields 5 6]\<rparr>)"
  by (simp add: example_five_fields)
     (simp add: handleBuffer_def RCTBridgeFieldResponseReturnValues_def RCTLogMustFix_def
        exampleBridge_def)

text \<open>Both hypotheses of the amended claim C1 at concrete buffers.\<close>

theorem C1_field_count_five_witness:
  "handleBuffer exampleRuntime
     (Some (NSArray [NSArray [NSNumber 7], NSArray [NSNumber 0], NSArray [NSArray []],
                     NSArray [], NSArray [], NSNumber 0])) exampleBridge =
     Inr (exampleBridge\<lparr>logs := logs exampleBridge @ [MustPassAllFields 5 6]\<rparr>)
   \<and> (\<exists>ms ns ps cbIDs returnValues.
         Some (NSArray [NSArray [NSNumber 7], NSArray [NSNumber 0], NSArray [NSArray []],
                        NSArray [], NSArray []]) =
         Some (NSArray [NSArray ms, NSArray ns, NSArray ps, cbIDs, returnValues])
         \<and> length ns = length ms \<and> length ps = length ms)"
proof -
  have q: "shadowQueue (exampleBridge\<lparr>shadowQueue :=
             [InvokeTask ''H'' pingMethod [], BatchDidCompleteTask]\<rparr>) \<noteq> shadowQueue exampleBridge"
    by (simp add: exampleBridge_def)
  show ?thesis
    using C1_field_count_five
      [of "[NSArray [NSNumber 7], NSArray [NSNumber 0], NSArray [NSArray []],
            NSArray [], NSArray [], NSNumber 0]"
          exampleRuntime exampleBridge
          "Some (NSArray [NSArray [NSNumber 7], NSArray [NSNumber 0], NSArray [NSArray []],
                          NSArray [], NSArray []])"]
      example_five_fields q
    by simp
qed

text \<open>Claim C2 at a buffer whose three primary fields have lengths 3, 3 and 2.\<close>

theorem C2_unequal_lengths_rejected_witness:
  "handleBuffer exampleRuntime
     (Some (NSArray [NSArray [NSNumber 7, NSNumber 7, NSNumber 7],
                     NSArray [NSNumber 0, NSNumber 0, NSNumber 0],
                     NSArray [NSArray [], NSArray []],
                     NSArray [], NSArray []])) exampleBridge =
     Inr (exampleBridge\<lparr>logs := logs exampleBridge @ [InvalidDataMessage 3]\<rparr>)
   \<and> MalformedBatchShape (InvalidDataMessage 3)"
  using C2_unequal_lengths_rejected
    [of "[NSNumber 7, NSNumber 7, NSNumber 7]" "[NSNumber 0, NSNumber 0, NSNumber 0]"
        "[NSArray [], NSArray []]" exampleRuntime "[NSArray [], NSArray []]" exampleBridge]
  by (simp add: numeral_3_eq_3)

text \<open>
  The batch \<open>moduleIDs = [7, 99]\<close>, \<open>methodIDs = [0, 0]\<close>,
  \<open>paramsArrays = [[], []]\<close>: module 7 exists, 99 does not; exactly the request for
  module 7, method 0 is scheduled and \<open>UnknownModuleID 99\<close> is logged. And a batch
  whose first request gives one parameter to a method of arity 2: it is logged and
  skipped, and the second request is scheduled.
\<close>

lemma requests_independent_example:
  "handleBuffer exampleRuntime
     (Some (NSArray [NSArray [NSNumber 7, NSNumber 99], NSArray [NSNumber 0, NSNumber 0],
                     NSArray [NSArray [], NSArray []], NSArray [], NSArray []])) exampleBridge =
     Inr (exampleBridge\<lparr>shadowQueue := shadowQueue exampleBridge @
                            [InvokeTask ''H'' pingMethod [], BatchDidCompleteTask],
                         logs := logs exampleBridge @ [UnknownModuleID (NSNumber 99)]\<rparr>)
   \<and> handleBuffer exampleRuntime
     (Some (NSArray [NSArray [NSNumber 7, NSNumber 7], NSArray [NSNumber 1, NSNumber 0],
                     NSArray [NSArray [NSString ''x''], NSArray []], NSArray [], NSArray []]))
     exampleBridge =
     Inr (exampleBridge\<lparr>shadowQueue := shadowQueue exampleBridge @
                            [InvokeTask ''H'' pingMethod [], BatchDidCompleteTask],
                         logs := logs exampleBridge @
                            [ExpectedArguments 2 1 ''H'' ''fetch'']\<rparr>)"
  using requests_independent
    [of "[NSNumber 7, NSNumber 99]" 2 "[NSArray [], NSArray []]" "[0, 0]" exampleRuntime
        "[NSNumber 0, NSNumber 0]" "NSArray []" "NSArray []" exampleBridge]
    requests_independent
    [of "[NSNumber 7, NSNumber 7]" 2 "[NSArray [NSString ''x''], NSArray []]" "[1, 0]"
        exampleRuntime "[NSNumber 1, NSNumber 0]" "NSArray []" "NSArray []" exampleBridge]
  by (simp add: upt_rec example_resolve_7 example_resolve_99 example_resolve_arity)

text \<open>
  Claim C3 fails where a method id does not respond to \<open>integerValue\<close>. In the batch
  \<open>moduleIDs = [99, 7, 7]\<close>, \<open>methodIDs = [0, null, 0]\<close>,
  \<open>paramsArrays = [[], [], []]\<close> the shape is valid. Request 0 fails validation and is
  logged; evaluating the method id of request 1 raises, which leaves the loop; request
  2, which passes validation on its own, is never scheduled, and neither is the
  batch-complete block.
\<close>

theorem C3_null_method_id_aborts_batch:
  "handleBuffer exampleRuntime
     (Some (NSArray [NSArray [NSNumber 99, NSNumber 7, NSNumber 7],
                     NSArray [NSNumber 0, NSNull, NSNumber 0],
                     NSArray [NSArray [], NSArray [], NSArray []],
                     NSArray [], NSArray []])) exampleBridge =
     Inl (UnrecognizedSelector NSNull,
          exampleBridge\<lparr>logs := [UnknownModuleID (NSNumber 99)]\<rparr>)
   \<and> resolveRequest exampleRuntime exampleBridge 2 (NSNumber 7) 0 (NSArray []) =
       Inr (InvokeTask ''H'' pingMethod [])
   \<and> shadowQueue (exampleBridge\<lparr>logs := [UnknownModuleID (NSNumber 99)]\<rparr>) = []"
proof -
  have "handleRequests exampleRuntime [NSNumber 99, NSNumber 7, NSNumber 7]
          [NSNumber 0, NSNull, NSNumber 0] [NSArray [], NSArray [], NSArray []]
          [0, 1, 2] exampleBridge =
        Inl (UnrecognizedSelector NSNull,
             exampleBridge\<lparr>logs := [UnknownModuleID (NSNumber 99)]\<rparr>)"
    by (simp add: handleRequestNumber_def example_resolve_99 RCTLogMustFix_def)
       (simp add: exampleBridge_def)
  moreover have "[0 ..< 3] = [0, 1, 2::nat]"
    by (simp add: upt_rec)
  ultimately have "handleBuffer exampleRuntime
     (Some (NSArray [NSArray [NSNumber 99, NSNumber 7, NSNumber 7],
                     NSArray [NSNumber 0, NSNull, NSNumber 0],
                     NSArray [NSArray [], NSArray [], NSArray []],
                     NSArray [], NSArray []])) exampleBridge =
     Inl (UnrecognizedSelector NSNull,
          exampleBridge\<lparr>logs := [UnknownModuleID (NSNumber 99)]\<rparr>)"
    by (simp add: handleBuffer_def RCTBridgeFieldResponseReturnValues_def
        RCTBridgeFieldRequestModuleIDs_def RCTBridgeFieldMethodIDs_def
        RCTBridgeFieldParamss_def arrayElements_def Let_def firstNonArrayField_arrays)
  then show ?thesis
    by (simp add: example_resolve_7) (simp add: exampleBridge_def)
qed

section \<open>Registry build: duplicate module names\<close>


lemma scanClasses_error:
  "scanClasses classes modules = Inl e \<Longrightarrow>
   \<exists>name. e = AssertionFailure (ModuleNameAlreadyRegistered name)"
  by (induction classes arbitrary: modules) (auto split: if_splits option.splits)

lemma scanClasses_keys:
  "scanClasses classes modules = Inr modules' \<Longrightarrow> fst ` set modules \<subseteq> fst ` set modules'"
proof (induction classes arbitrary: modules)
  case Nil
  then show ?case by simp
next
  case (Cons cls classes)
  show ?case
  proof (cases "hasSuperclass cls \<and> conformsToRCTBridgeModule cls")
    case False
    with Cons show ?thesis by (auto split: if_splits)
  next
    case True
    with Cons.prems have none: "map_of modules (moduleNameOf cls) = None"
      and rest: "scanClasses classes (AList.update (moduleNameOf cls) cls modules) = Inr modules'"
      by (auto split: option.splits)
    from Cons.IH [OF rest] show ?thesis
      by (auto simp add: AList.dom_update)
  qed
qed

lemma scanClasses_append:
  "scanClasses (pre @ rest) modules =
     (case scanClasses pre modules of Inl e \<Rightarrow> Inl e | Inr modules' \<Rightarrow> scanClasses rest modules')"
  by (induction pre arbitrary: modules) (auto split: option.splits)

lemma scanClasses_registers:
  assumes "hasSuperclass cls" "conformsToRCTBridgeModule cls"
    and "scanClasses (cls # rest) modules = Inr modules'"
  shows "moduleNameOf cls \<in> fst ` set modules'"
proof -
  from assms have "scanClasses rest (AList.update (moduleNameOf cls) cls modules) = Inr modules'"
    by (auto split: option.splits)
  from scanClasses_keys [OF this] show ?thesis
    by (auto simp add: AList.dom_update)
qed

lemma scanClasses_registered_twice:
  assumes "hasSuperclass cls" "conformsToRCTBridgeModule cls"
    and "moduleNameOf cls \<in> fst ` set modules"
  shows "scanClasses (cls # rest) modules =
           Inl (AssertionFailure (ModuleNameAlreadyRegistered (moduleNameOf cls)))"
proof -
  from assms(3) obtain c where "map_of modules (moduleNameOf cls) = Some c"
    by (metis domD dom_map_of_conv_image_fst)
  with assms(1,2) show ?thesis by simp
qed

lemma scanClasses_duplicate:
  assumes "hasSuperclass c1" "conformsToRCTBridgeModule c1"
    and "hasSuperclass c2" "conformsToRCTBridgeModule c2"
    and "moduleNameOf c1 = moduleNameOf c2"
  shows "\<exists>name. scanClasses (pre @ c1 # mid @ c2 # post) modules =
           Inl (AssertionFailure (ModuleNameAlreadyRegistered name))"
proof (cases "scanClasses (pre @ c1 # mid) modules")
  case (Inl e)
  then have "scanClasses (pre @ c1 # mid @ c2 # post) modules = Inl e"
    using scanClasses_append [of "pre @ c1 # mid" "c2 # post" modules] by simp
  with scanClasses_error [OF Inl] show ?thesis by auto
next
  case (Inr m2)
  then obtain m1 where m1: "scanClasses pre modules = Inr m1"
    and m2: "scanClasses (c1 # mid) m1 = Inr m2"
    using scanClasses_append [of pre "c1 # mid" modules] by (auto split: sum.splits)
  from m2 obtain m1' where m1': "scanClasses [c1] m1 = Inr m1'" and mid: "scanClasses mid m1' = Inr m2"
    using scanClasses_append [of "[c1]" mid m1] by (auto split: sum.splits)
  from scanClasses_registers [OF assms(1,2) m1'] scanClasses_keys [OF mid]
  have "moduleNameOf c2 \<in> fst ` set m2" using assms(5) by auto
  from scanClasses_registered_twice [OF assms(3,4) this, of post]
  have "scanClasses (pre @ c1 # mid @ c2 # post) modules =
          Inl (AssertionFailure (ModuleNameAlreadyRegistered (moduleNameOf c2)))"
    using scanClasses_append [of "pre @ c1 # mid" "c2 # post" modules] Inr by simp
  then show ?thesis by blast
qed

text \<open>
  Claim C4: when two classes that the scan keeps (with a superclass, conforming to
  \<open>RCTBridgeModule\<close>) claim the same module name, the class scan fails its
  uniqueness assertion, and so does bridge construction, which scans first: no bridge
  exists on which a call could be dispatched, and neither class replaces the other.
\<close>

theorem C4_duplicate_name_aborts_build:
  assumes "classList rt = pre @ c1 # mid @ c2 # post"
    and "hasSuperclass c1" "conformsToRCTBridgeModule c1"
    and "hasSuperclass c2" "conformsToRCTBridgeModule c2"
    and "moduleNameOf c1 = moduleNameOf c2"
  shows "\<exists>name. RCTBridgeModuleClasses rt =
                  Inl (AssertionFailure (ModuleNameAlreadyRegistered name))
              \<and> initWithJavaScriptExecutor rt ex =
                  Inl (AssertionFailure (ModuleNameAlreadyRegistered name))"
proof -
  from scanClasses_duplicate [OF assms(2-6), of pre mid post "[]"] assms(1)
  obtain name where "RCTBridgeModuleClasses rt =
      Inl (AssertionFailure (ModuleNameAlreadyRegistered name))"
    by (auto simp add: RCTBridgeModuleClasses_def)
  then show ?thesis by (auto simp add: initWithJavaScriptExecutor_def)
qed

text \<open>Claim C4 at two classes \<open>A\<close> and \<open>B\<close>, where \<open>B\<close> names itself \<open>A\<close>.\<close>

theorem C4_duplicate_name_aborts_build_witness:
  "\<exists>name. RCTBridgeModuleClasses duplicateRuntime =
                  Inl (AssertionFailure (ModuleNameAlreadyRegistered name))
              \<and> initWithJavaScriptExecutor duplicateRuntime (Executor 0) =
                  Inl (AssertionFailure (ModuleNameAlreadyRegistered name))"
  using C4_duplicate_name_aborts_build
    [of duplicateRuntime "[]" "exampleClass ''A''" "[]"
        "(exampleClass ''B'')\<lparr>moduleName := Some ''A''\<rparr>" "[]" "Executor 0"]
  by (simp add: duplicateRuntime_def exampleClass_def moduleNameOf_def)

section \<open>Construction and the injection handshake\<close>



section \<open>Calls into the script runtime and callbacks\<close>

text \<open>
  Claim C6: for a name that \<open>RCTLocalModuleIDs\<close> does not hold, \<open>enqueueJSCall\<close>
  fails its first assertion; the state at the failure is the state before the call, so
  nothing was handed to the script executor.
\<close>

theorem C6_unknown_local_method_fatal:
  assumes "map_of (RCTLocalModuleIDs s) moduleDotMethod = None"
  shows "enqueueJSCall moduleDotMethod args s =
           Inl (AssertionFailure
                  (ModuleNotRegistered
                     (firstObject (componentsSeparatedBy (CHR ''.'') moduleDotMethod))), s)"
  using assms by (simp add: enqueueJSCall_def)

text \<open>Claim C6 at \<open>Unregistered.method\<close> with no arguments.\<close>

theorem C6_unknown_local_method_fatal_witness:
  "enqueueJSCall ''Unregistered.method'' [] exampleBridge =
     Inl (AssertionFailure (ModuleNotRegistered ''Unregistered''), exampleBridge)"
  using C6_unknown_local_method_fatal [of exampleBridge "''Unregistered.method''" "[]"]
  by (simp add: exampleBridge_def firstObject_def)

text \<open>
  Claim C7: on a valid bridge, for a callback id other than 0, the block returned by
  \<open>createResponseSenderBlock:\<close>, called once with \<open>args\<close>, hands exactly one call to
  the script executor: \<open>BatchedBridge.invokeCallbackAndReturnFlushedQueue\<close> with the
  arguments \<open>[cbID, args]\<close>.
\<close>

theorem C7_callback_sends_one_envelope:
  assumes "cbID \<noteq> 0" and "isValid s"
  shows "\<exists>block. createResponseSenderBlock cbID = Some block
           \<and> callResponseSenderBlock block args s =
               s\<lparr>jsCalls := jsCalls s @
                    [(''BatchedBridge'', ''invokeCallbackAndReturnFlushedQueue'',
                      [NSNumber (sint cbID), NSArray args])]\<rparr>"
  using assms
  by (auto simp add: createResponseSenderBlock_def sendResponseToJavaScriptCallbackID_def
      invokeAndProcessModule_def isValid_def)

text \<open>Claim C7 at callback id 42 and the arguments \<open>["ok"]\<close>.\<close>

theorem C7_callback_sends_one_envelope_witness:
  "\<exists>block. createResponseSenderBlock 42 = Some block
           \<and> callResponseSenderBlock block [NSString ''ok''] exampleBridge =
               exampleBridge\<lparr>jsCalls := jsCalls exampleBridge @
                    [(''BatchedBridge'', ''invokeCallbackAndReturnFlushedQueue'',
                      [NSNumber 42, NSArray [NSString ''ok'']])]\<rparr>"
  using C7_callback_sends_one_envelope [of 42 exampleBridge "[NSString ''ok'']"]
  by (simp add: isValid_def exampleBridge_def)

section \<open>Argument marshaling\<close>

lemma marshalParams_length:
  "marshalParams rt name method idx params = Inr args \<Longrightarrow> length args = length params"
  by (induction params arbitrary: idx args) (auto split: sum.splits)

lemma marshalParams_null:
  "marshalParams rt name method idx params = Inr args \<Longrightarrow> k < length params \<Longrightarrow>
   params ! k = NSNull \<Longrightarrow> args ! k = ANil"
proof (induction params arbitrary: idx args k)
  case Nil
  then show ?case by simp
next
  case (Cons param params)
  from Cons.prems(1) obtain v rest where v: "substituteParam rt method idx param = Inr v"
    and rest: "marshalParams rt name method (Suc idx) params = Inr rest"
    and args: "args = setArgument (argumentType rt name (selector method) idx) v # rest"
    by (auto split: sum.splits)
  show ?case
  proof (cases k)
    case 0
    with Cons.prems(3) v have "v = PNil" by (simp add: substituteParam_def)
    with 0 args show ?thesis by (simp add: setArgument_def)
  next
    case (Suc j)
    with Cons.prems Cons.IH [OF rest, of j] args show ?thesis by simp
  qed
qed

text \<open>
  Claim C10: \<open>NSNull\<close> is replaced by \<open>nil\<close> first, at a block argument index too, so
  no response sender block is created for it; \<open>nil\<close> stays \<open>nil\<close> through the switch
  on the argument type, whatever the type; and in the invocation that a valid bridge
  performs, every position whose parameter is \<open>NSNull\<close> carries \<open>nil\<close>.
\<close>

theorem C10_null_becomes_nil:
  "substituteParam rt method idx NSNull = Inr PNil
   \<and> setArgument c PNil = ANil
   \<and> (isValid s \<and> map_of (moduleInstances s) name = Some target
        \<and> marshalParams rt name method 0 params = Inr args \<longrightarrow>
      (\<exists>s'. runTask rt (InvokeTask name method params) s = Inr s'
          \<and> nativeCalls s' = nativeCalls s @ [Invoke name (selector method) args])
      \<and> length args = length params
      \<and> (\<forall>k<length params. params ! k = NSNull \<longrightarrow> args ! k = ANil))"
  by (auto simp add: substituteParam_def setArgument_def Let_def RCTLogMustFix_def
      marshalParams_length dest: marshalParams_null)

lemma example_marshal:
  "marshalParams exampleRuntime ''H'' fetchMethod 0 [NSString ''x'', NSNull] =
     Inr [AObject (NSString ''x''), ANil]"
  by (simp add: substituteParam_def setArgument_def fetchMethod_def exampleRuntime_def)

text \<open>
  Claim C10 at \<open>fetch\<close>, whose argument 1 is a block, called with a string and
  \<open>NSNull\<close>.
\<close>

theorem C10_null_becomes_nil_witness:
  "1 \<in> blockArgumentIndexes fetchMethod
   \<and> (\<exists>s'. runTask exampleRuntime
              (InvokeTask ''H'' fetchMethod [NSString ''x'', NSNull]) exampleBridge = Inr s'
          \<and> nativeCalls s' = nativeCalls exampleBridge @
               [Invoke ''H'' (selector fetchMethod) [AObject (NSString ''x''), ANil]])"
proof -
  have a: "isValid exampleBridge"
    by (simp add: isValid_def exampleBridge_def)
  have b: "map_of (moduleInstances exampleBridge) ''H'' = Some (exampleClass ''H'')"
    by (simp add: exampleBridge_def exampleNames_def)
  show ?thesis
    using C10_null_becomes_nil [of exampleRuntime fetchMethod 0 "CHR ''@''" exampleBridge
        "''H''" "exampleClass ''H''" "[NSString ''x'', NSNull]"
        "[AObject (NSString ''x''), ANil]"] a b example_marshal
    by (simp add: fetchMethod_def)
qed

section \<open>After invalidation\<close>

lemma handleBuffer_cases:
  assumes "handleBuffer rt buffer s = Inr s'"
  shows "s' = s \<or> (\<exists>m. s' = RCTLogMustFix m s)
         \<or> (\<exists>ms ns ps is s1. handleRequests rt ms ns ps is s = Inr s1
                \<and> s' = dispatch_async BatchDidCompleteTask s1)"
proof (cases buffer)
  case None
  with assms show ?thesis by (simp add: handleBuffer_def)
next
  case (Some b)
  show ?thesis
  proof (cases b)
    case (NSArray xs)
    with assms Some show ?thesis
      unfolding handleBuffer_def Let_def
      by (simp split: if_splits option.splits sum.splits) blast+
  qed (use assms Some in \<open>simp_all add: handleBuffer_def, blast+\<close>)
qed


lemma handleRequestNumber_untouched:
  "javaScriptExecutor (snd (handleRequestNumber rt i m k p s)) = javaScriptExecutor s
   \<and> moduleInstances (snd (handleRequestNumber rt i m k p s)) = moduleInstances s
   \<and> nativeCalls (snd (handleRequestNumber rt i m k p s)) = nativeCalls s
   \<and> jsCalls (snd (handleRequestNumber rt i m k p s)) = jsCalls s"
  by (simp add: handleRequestNumber_def RCTLogMustFix_def dispatch_async_def split: sum.splits)

lemma handleRequests_untouched:
  "handleRequests rt moduleIDs methodIDs paramsArrays is s = Inr s' \<Longrightarrow>
   javaScriptExecutor s' = javaScriptExecutor s \<and> moduleInstances s' = moduleInstances s
   \<and> nativeCalls s' = nativeCalls s \<and> jsCalls s' = jsCalls s"
proof (induction "is" arbitrary: s)
  case Nil
  then show ?case by simp
next
  case (Cons i "is")
  from Cons.prems obtain k where k: "integerValue rt (methodIDs ! i) = Some k"
    by (auto split: option.splits)
  let ?s1 = "snd (handleRequestNumber rt i (moduleIDs ! i) k (paramsArrays ! i) s)"
  from Cons.prems k have "handleRequests rt moduleIDs methodIDs paramsArrays is ?s1 = Inr s'"
    by simp
  from Cons.IH [OF this] show ?case
    by (simp add: handleRequestNumber_untouched)
qed

lemma handleBuffer_untouched:
  assumes "handleBuffer rt buffer s = Inr s'"
  shows "javaScriptExecutor s' = javaScriptExecutor s \<and> moduleInstances s' = moduleInstances s
   \<and> nativeCalls s' = nativeCalls s \<and> jsCalls s' = jsCalls s"
  using handleBuffer_cases [OF assms]
  by (auto simp add: RCTLogMustFix_def dispatch_async_def dest: handleRequests_untouched)

lemma runTask_invalidated:
  assumes "javaScriptExecutor s = None"
  shows "\<exists>s'. runTask rt t s = Inr s' \<and> javaScriptExecutor s' = None
           \<and> moduleInstances s' = moduleInstances s \<and> jsCalls s' = jsCalls s
           \<and> nativeCalls s' = nativeCalls s @
                (case t of
                   BatchDidCompleteTask \<Rightarrow>
                     map (\<lambda>(name, target). BatchDidComplete name)
                       (filter (\<lambda>(name, target). respondsToBatchDidComplete target)
                          (moduleInstances s))
                 | _ \<Rightarrow> [])"
  using assms by (cases t) (simp_all add: isValid_def)

lemma runTasks_invalidated:
  "javaScriptExecutor s = None \<Longrightarrow>
   \<exists>s'. runTasks rt ts s = Inr s' \<and> javaScriptExecutor s' = None
         \<and> moduleInstances s' = moduleInstances s"
proof (induction ts arbitrary: s)
  case Nil
  then show ?case by simp
next
  case (Cons t ts)
  from runTask_invalidated [OF Cons.prems, of rt t] obtain s1 where
    s1: "runTask rt t s = Inr s1" "javaScriptExecutor s1 = None"
        "moduleInstances s1 = moduleInstances s" by blast
  from Cons.IH [OF s1(2)] s1 show ?case by auto
qed

lemma invalidate_total:
  "\<exists>s1. invalidate rt s = Inr s1 \<and> javaScriptExecutor s1 = None \<and> moduleInstances s1 = []"
proof -
  let ?s0 = "s\<lparr>latestJSExecutor :=
                   (if latestJSExecutor s = javaScriptExecutor s then None
                    else latestJSExecutor s),
                 javaScriptExecutor := None, shadowQueue := []\<rparr>"
  have "javaScriptExecutor ?s0 = None" by simp
  from runTasks_invalidated [OF this, of rt "shadowQueue s"] obtain s2 where
    "runTasks rt (shadowQueue s) ?s0 = Inr s2" "javaScriptExecutor s2 = None" by blast
  then show ?thesis
    by (simp add: invalidate_def runShadowQueue_def Let_def)
qed

lemma step_invalidated:
  assumes "step rt s s'" and "javaScriptExecutor s = None" and "moduleInstances s = []"
  shows "javaScriptExecutor s' = None \<and> moduleInstances s' = []
         \<and> nativeCalls s' = nativeCalls s \<and> jsCalls s' = jsCalls s"
  using assms
proof (cases rule: step.cases)
  case (deliver buffer)
  from handleBuffer_untouched [OF this] assms(2,3) show ?thesis by simp
next
  case (run t ts)
  let ?s0 = "s\<lparr>shadowQueue := ts\<rparr>"
  have "javaScriptExecutor ?s0 = None" using assms(2) by simp
  from runTask_invalidated [OF this, of rt t] run(2) assms(2,3) show ?thesis
    by (auto split: task.splits)
next
  case (enqueue moduleDotMethod args)
  with assms(2,3) show ?thesis
    by (auto simp add: enqueueJSCall_def invokeAndProcessModule_def split: option.splits)
next
  case (respond block args)
  with assms(2,3) show ?thesis
    by (cases block)
       (simp add: sendResponseToJavaScriptCallbackID_def invokeAndProcessModule_def)
qed

lemma steps_invalidated:
  assumes "(step rt)\<^sup>*\<^sup>* s s'" and "javaScriptExecutor s = None" and "moduleInstances s = []"
  shows "javaScriptExecutor s' = None \<and> moduleInstances s' = []
         \<and> nativeCalls s' = nativeCalls s \<and> jsCalls s' = jsCalls s"
  using assms
proof (induction rule: rtranclp_induct)
  case base
  then show ?case by simp
next
  case (step y z)
  from step.IH [OF step.prems] step_invalidated [OF step.hyps(2)] show ?case by simp
qed

text \<open>
  Claim C8: \<open>invalidate\<close> always completes and leaves the bridge invalid; from then on,
  whatever buffers are delivered and whatever blocks the shadow queue runs, no message is
  sent to a module instance, nothing is handed to the script executor, and the bridge
  stays invalid.
\<close>

theorem C8_nothing_invoked_after_invalidate:
  "\<exists>s1. invalidate rt s = Inr s1 \<and> \<not> isValid s1
     \<and> (\<forall>s'. (step rt)\<^sup>*\<^sup>* s1 s' \<longrightarrow>
            nativeCalls s' = nativeCalls s1 \<and> jsCalls s' = jsCalls s1 \<and> \<not> isValid s')"
proof -
  from invalidate_total [of rt s] obtain s1 where
    s1: "invalidate rt s = Inr s1" "javaScriptExecutor s1 = None" "moduleInstances s1 = []"
    by blast
  have "nativeCalls s' = nativeCalls s1 \<and> jsCalls s' = jsCalls s1 \<and> \<not> isValid s'"
    if "(step rt)\<^sup>*\<^sup>* s1 s'" for s'
    using steps_invalidated [OF that s1(2,3)] by (simp add: isValid_def)
  moreover have "\<not> isValid s1"
    using s1(2) by (simp add: isValid_def)
  ultimately show ?thesis
    using s1(1) by blast
qed

lemma example_invalidate:
  "invalidate exampleRuntime exampleBridge = Inr invalidatedBridge"
  by (simp add: invalidate_def runShadowQueue_def invalidatedBridge_def)
     (simp add: exampleBridge_def exampleNames_def exampleClass_def)

lemma example_deliver_invalidated:
  "handleBuffer exampleRuntime
     (Some (NSArray [NSArray [NSNumber 7], NSArray [NSNumber 0], NSArray [NSArray []],
                     NSArray [], NSArray []])) invalidatedBridge =
   Inr (invalidatedBridge\<lparr>shadowQueue :=
          [InvokeTask ''H'' pingMethod [], BatchDidCompleteTask]\<rparr>)"
proof -
  have r: "resolveRequest exampleRuntime invalidatedBridge 0 (NSNumber 7) 0 (NSArray []) =
             Inr (InvokeTask ''H'' pingMethod [])"
  proof -
    have "RCTRemoteModulesByID invalidatedBridge = RCTRemoteModulesByID exampleBridge"
      by (simp add: invalidatedBridge_def)
    from resolveRequest_cong [OF this] example_resolve_7 [of 0] show ?thesis by simp
  qed
  show ?thesis
    by (simp add: handleBuffer_def RCTBridgeFieldResponseReturnValues_def
        RCTBridgeFieldRequestModuleIDs_def RCTBridgeFieldMethodIDs_def
        RCTBridgeFieldParamss_def arrayElements_def Let_def firstNonArrayField_arrays
        handleRequestNumber_def r dispatch_async_def)
       (simp add: invalidatedBridge_def exampleBridge_def)
qed

text \<open>
  Claim C8 on the example bridge: after invalidation a batch with a valid request is
  delivered and its invocation block runs; nothing is invoked.
\<close>

theorem C8_nothing_invoked_after_invalidate_witness:
  "invalidate exampleRuntime exampleBridge = Inr invalidatedBridge
   \<and> (step exampleRuntime)\<^sup>*\<^sup>* invalidatedBridge
        (invalidatedBridge\<lparr>shadowQueue := [BatchDidCompleteTask]\<rparr>)
   \<and> nativeCalls (invalidatedBridge\<lparr>shadowQueue := [BatchDidCompleteTask]\<rparr>) =
       nativeCalls invalidatedBridge"
proof -
  let ?s2 = "invalidatedBridge\<lparr>shadowQueue :=
               [InvokeTask ''H'' pingMethod [], BatchDidCompleteTask]\<rparr>"
  let ?s3 = "invalidatedBridge\<lparr>shadowQueue := [BatchDidCompleteTask]\<rparr>"
  have a: "step exampleRuntime invalidatedBridge ?s2"
    by (rule step.deliver [OF example_deliver_invalidated])
  have "runTask exampleRuntime (InvokeTask ''H'' pingMethod [])
          (?s2\<lparr>shadowQueue := [BatchDidCompleteTask]\<rparr>) = Inr ?s3"
    by (simp add: isValid_def invalidatedBridge_def)
  then have b: "step exampleRuntime ?s2 ?s3"
    by (rule step.run [rotated]) simp
  from a b have reach: "(step exampleRuntime)\<^sup>*\<^sup>* invalidatedBridge ?s3"
    by (meson rtranclp.rtrancl_into_rtrancl rtranclp.rtrancl_refl)
  from C8_nothing_invoked_after_invalidate [of exampleRuntime exampleBridge]
  obtain s1 where s1: "invalidate exampleRuntime exampleBridge = Inr s1"
    and all: "\<forall>s'. (step exampleRuntime)\<^sup>*\<^sup>* s1 s' \<longrightarrow>
            nativeCalls s' = nativeCalls s1 \<and> jsCalls s' = jsCalls s1 \<and> \<not> isValid s'"
    by blast
  from s1 example_invalidate have eq: "s1 = invalidatedBridge" by simp
  from all reach have "nativeCalls ?s3 = nativeCalls invalidatedBridge"
    unfolding eq by blast
  with example_invalidate reach show ?thesis by blast
qed

section \<open>Registry build: unique and complete ids\<close>


























lemma declaring_local:
  "RCTLocalModulesConfig
     [(''A'', (exampleClass ''A'')\<lparr>JSMethods := Some [''Z.emit'', ''RCTEventEmitter.receiveEvent'']\<rparr>),
      (''B'', exampleClass ''B'')] =
   Inr ([(''Bundler'', \<lparr>moduleID = 0,
            methods = [(''runApplication'', \<lparr>methodID = 0, methodType = ''local''\<rparr>)],
            constants = None\<rparr>),
         (''RCTEventEmitter'', \<lparr>moduleID = 1,
            methods = [(''receiveEvent'', \<lparr>methodID = 0, methodType = ''local''\<rparr>),
                       (''receiveTouches'', \<lparr>methodID = 1, methodType = ''local''\<rparr>)],
            constants = None\<rparr>),
         (''Z'', \<lparr>moduleID = 2,
            methods = [(''emit'', \<lparr>methodID = 0, methodType = ''local''\<rparr>)],
            constants = None\<rparr>)],
        [(''Bundler.runApplication'', 0), (''RCTEventEmitter.receiveEvent'', 1),
         (''RCTEventEmitter.receiveTouches'', 1), (''Z.emit'', 2)],
        [(''Bundler.runApplication'', 0), (''RCTEventEmitter.receiveEvent'', 0),
         (''RCTEventEmitter.receiveTouches'', 1), (''Z.emit'', 0)])"
  by (simp add: RCTLocalModulesConfig_def localJSMethods_def exampleClass_def
      localStep_def Let_def)




end
